theory Spec2Isabelle
  imports
    Complex_Main
    "HOL-Library.Monad_Syntax"
    "HOL-Library.Signed_Division"
    "HOL-Library.Word"
begin

section \<open>Conventions of the embedding\<close>

text \<open>
  The three programs of the repository (GenerateRLLMesh, GenerateTestData and
  GenerateOverlapMeshExe_v1) are embedded as HOL functions.

  \<^item> A C++ \<open>double\<close> is modelled as a \<open>real\<close>, \<open>M_PI\<close> as \<open>pi\<close>: rounding is not
    modelled, so every statement about coordinates is a statement about the
    formulas the code evaluates.
  \<^item> A C++ \<open>int\<close> is modelled as an \<open>int\<close>; the mesh sizes for which the
    arrays of the programs can be allocated are far from the 32-bit range, so
    no wrap-around is written out. The operator \<open>%\<close> is \<open>smod\<close> (truncating).
  \<^item> Everything thrown inside a \<open>try\<close> block is a value of type \<open>thrown\<close>;
    a function that can throw returns a sum whose left side is the failure.
\<close>

subsection \<open>Thrown objects and the handlers of \<open>main\<close>\<close>

text \<open>
  \<open>_EXCEPTIONT(msg)\<close> and \<open>_EXCEPTION1(fmt, arg)\<close> throw an \<open>Exception\<close> carrying
  the message; anything else that reaches \<open>catch(...)\<close> is \<open>Other_thrown\<close>.
\<close>

datatype thrown = Exception string | Other_thrown

text \<open>
  A read outside of an array and a call through a null pointer are undefined
  behaviour in C++; they are neither thrown objects nor exit codes, and are
  kept apart from both.
\<close>

datatype undefined_step =
    Out_of_bounds_read string int nat  \<comment> \<open>array, index, number of rows\<close>
  | Null_dereference string

datatype failure =
    Raised thrown
  | Undefined undefined_step

datatype program_end =
    Exit int
  | Undefined_behaviour undefined_step
  | Terminate_called  \<comment> \<open>a thrown object that no handler catches\<close>

text \<open>Sequencing of steps that can fail: the first failure ends the block.\<close>

definition and_then :: "failure + 'a \<Rightarrow> ('a \<Rightarrow> failure + 'b) \<Rightarrow> failure + 'b" where
  "and_then r f = (case r of Inl e \<Rightarrow> Inl e | Inr v \<Rightarrow> f v)"

fun collect :: "(failure + 'a) list \<Rightarrow> failure + 'a list" where
  "collect [] = Inr []"
| "collect (r # rs) =
     (case r of
        Inl e \<Rightarrow> Inl e
      | Inr v \<Rightarrow> (case collect rs of Inl e \<Rightarrow> Inl e | Inr vs \<Rightarrow> Inr (v # vs)))"

text \<open>
  \<open>a[i]\<close> on a \<open>DataVector\<close> or a \<open>std::vector\<close>: the element when the index is
  in range, an undefined step otherwise.
\<close>

definition read_at :: "string \<Rightarrow> 'a list \<Rightarrow> int \<Rightarrow> failure + 'a" where
  "read_at name a i =
     (if 0 \<le> i \<and> i < int (length a) then Inr (a ! nat i)
      else Inl (Undefined (Out_of_bounds_read name i (length a))))"

text \<open>
  The handlers that close \<open>main\<close> in GenerateRLLMesh.cpp (lines 442-450) and
  in GenerateTestData.cpp (lines 670-678):
  \<^verbatim>\<open>return (0); } catch(Exception & e) { ...; return (-1); } catch(...) { return (-2); }\<close>
\<close>

fun try_catch :: "failure + 'a \<Rightarrow> program_end" where
  "try_catch (Inr _) = Exit 0"
| "try_catch (Inl (Raised (Exception _))) = Exit (- 1)"
| "try_catch (Inl (Raised Other_thrown)) = Exit (- 2)"
| "try_catch (Inl (Undefined u)) = Undefined_behaviour u"


section \<open>GenerateTestData\<close>

subsection \<open>The test functions\<close>

text \<open>
  The subclasses of \<open>TestFunction\<close>, as a closed set of variants, and their
  \<open>operator()\<close>. A division is written \<open>checked_div\<close>, which has no value when
  the divisor is zero, so that a test function has a value only if none of
  the divisions it performs has a zero divisor.
\<close>

datatype test_function =
    TestFunctionY2b2
  | TestFunctionY16b32
  | TestFunctionVortex
  | TestFunction1

definition checked_div :: "real \<Rightarrow> real \<Rightarrow> real option" where
  "checked_div a b = (if b = 0 then None else Some (a / b))"

text \<open>\<open>atan2(y, x)\<close> of the C library, on the reals.\<close>

definition atan2 :: "real \<Rightarrow> real \<Rightarrow> real" where
  "atan2 y x =
     (if 0 < x then arctan (y / x)
      else if x < 0 then (if 0 \<le> y then arctan (y / x) + pi else arctan (y / x) - pi)
      else if 0 < y then pi / 2
      else if y < 0 then - (pi / 2)
      else 0)"

text \<open>\<open>TestFunctionY2b2::operator()\<close>: \<open>2.0 + cos(dLat) * cos(dLat) * cos(2.0 * dLon)\<close>.\<close>

definition Y2b2 :: "real \<Rightarrow> real \<Rightarrow> real" where
  "Y2b2 dLon dLat = 2 + cos dLat * cos dLat * cos (2 * dLon)"

text \<open>
  \<open>TestFunctionY16b32::operator()\<close>: \<open>2.0 + pow(sin(2.0 * dLat), 16.0) * cos(16.0 * dLon)\<close>;
  \<open>pow\<close> with the exponent 16.0 is the sixteenth power.
\<close>

definition Y16b32 :: "real \<Rightarrow> real \<Rightarrow> real" where
  "Y16b32 dLon dLat = 2 + sin (2 * dLat) ^ 16 * cos (16 * dLon)"

text \<open>
  \<open>TestFunctionVortex::RotatedSphereCoord\<close>: the reference parameters
  \<open>dLonT\<close>, \<open>dLatT\<close> are read and overwritten; the model returns the new pair.
\<close>

definition RotatedSphereCoord :: "real \<Rightarrow> real \<Rightarrow> real \<times> real \<Rightarrow> real \<times> real" where
  "RotatedSphereCoord dLonC dLatC p =
     (let dLonT = fst p; dLatT = snd p;
          dSinC = sin dLatC;
          dCosC = cos dLatC;
          dCosT = cos dLatT;
          dSinT = sin dLatT;
          dTrm = dCosT * cos (dLonT - dLonC);
          dX = dSinC * dTrm - dCosC * dSinT;
          dY = dCosT * sin (dLonT - dLonC);
          dZ = dSinC * dSinT + dCosC * dTrm;
          dLonT1 = atan2 dY dX;
          dLonT2 = (if dLonT1 < 0 then dLonT1 + 2 * pi else dLonT1)
      in (dLonT2, arcsin dZ))"

text \<open>
  \<open>dVt = 3.0 * sqrt(3.0) / 2.0 / cosh(dRho) / cosh(dRho) * tanh(dRho)\<close>,
  left to right.
\<close>

definition vortex_Vt :: "real \<Rightarrow> real option" where
  "vortex_Vt dRho = do {
     a \<leftarrow> checked_div (3 * sqrt 3) 2;
     b \<leftarrow> checked_div a (cosh dRho);
     c \<leftarrow> checked_div b (cosh dRho);
     Some (c * tanh dRho)
   }"

text \<open>
  \<^verbatim>\<open>if (dRho == 0.0) { dOmega = 0.0; } else { dOmega = dVt / dRho; }\<close>
\<close>

definition vortex_Omega :: "real \<Rightarrow> real \<Rightarrow> real option" where
  "vortex_Omega dRho dVt = (if dRho = 0 then Some 0 else checked_div dVt dRho)"

text \<open>\<open>TestFunctionVortex::operator()\<close>.\<close>

definition Vortex :: "real \<Rightarrow> real \<Rightarrow> real option" where
  "Vortex dLon dLat =
     (let dLon0 = 0; dLat0 = 6 / 10; dR0 = 3; dD = 5; dT = 6;
          p = RotatedSphereCoord dLon0 dLat0 (dLon, dLat);
          dLon1 = fst p; dLat1 = snd p;
          dRho = dR0 * cos dLat1
      in do {
        dVt \<leftarrow> vortex_Vt dRho;
        dOmega \<leftarrow> vortex_Omega dRho dVt;
        q \<leftarrow> checked_div dRho dD;
        Some (1 - tanh (q * sin (dLon1 - dOmega * dT)))
      })"

text \<open>The virtual call \<open>(*pTest)(dLon, dLat)\<close>.\<close>

fun eval_test :: "test_function \<Rightarrow> real \<Rightarrow> real \<Rightarrow> real option" where
  "eval_test TestFunctionY2b2 dLon dLat = Some (Y2b2 dLon dLat)"
| "eval_test TestFunctionY16b32 dLon dLat = Some (Y16b32 dLon dLat)"
| "eval_test TestFunctionVortex dLon dLat = Vortex dLon dLat"
| "eval_test TestFunction1 dLon dLat = Some 1"

subsection \<open>\<open>main\<close> of GenerateTestData\<close>

text \<open>The selection of the test function, lines 250-261.\<close>

definition select_test :: "int \<Rightarrow> failure + test_function" where
  "select_test iTestData =
     (if iTestData = 1 then Inr TestFunctionY2b2
      else if iTestData = 2 then Inr TestFunctionY16b32
      else if iTestData = 3 then Inr TestFunctionVortex
      else if iTestData = 4 then Inr TestFunction1
      else Inl (Raised (Exception ''Test index out of range; expected [1,2,3]'')))"

text \<open>
  The \<open>try\<close> block of \<open>main\<close>: the check of the arguments, the selection of the
  test function, and then the loading of the mesh, the sampling and the
  writing of the result. Those last steps call the mesh, quadrature and NetCDF
  libraries; what they throw, if anything, is the parameter \<open>rest\<close>.
\<close>

definition testdata_body ::
  "bool \<Rightarrow> bool \<Rightarrow> int \<Rightarrow> (test_function \<Rightarrow> thrown option) \<Rightarrow> failure + test_function" where
  "testdata_body fGLL fGLLIntegrate iTestData rest =
     (if fGLLIntegrate \<and> fGLL
      then Inl (Raised (Exception ''--gll and --gllint are exclusive arguments''))
      else case select_test iTestData of
             Inl e \<Rightarrow> Inl e
           | Inr pTest \<Rightarrow>
               (case rest pTest of
                  Some t \<Rightarrow> Inl (Raised t)
                | None \<Rightarrow> Inr pTest))"

definition testdata_main ::
  "bool \<Rightarrow> bool \<Rightarrow> int \<Rightarrow> (test_function \<Rightarrow> thrown option) \<Rightarrow> program_end" where
  "testdata_main fGLL fGLLIntegrate iTestData rest =
     try_catch (testdata_body fGLL fGLLIntegrate iTestData rest)"

section \<open>GenerateRLLMesh\<close>

subsection \<open>Mesh elements\<close>

text \<open>
  Modelled from the spec: \<open>Node\<close>, \<open>Edge\<close>, \<open>Face\<close> and \<open>Mesh\<close> are declared in
  GridElements.h, which is not among the sources. A node is a point
  \<open>(x, y, z)\<close>; an edge is a typed arc that references its two end nodes by
  index; a face is a closed loop with one edge per consecutive pair of its
  nodes, the last edge closing the loop back to the first node; a mesh owns a
  sequence of nodes and a sequence of faces. \<open>Face(n)\<close> makes \<open>n\<close> edges of the
  default type, the great-circle arc (the generator's switch
  \<open>ONLY_GREAT_CIRCLES\<close> leaves the edges as constructed), and \<open>SetNode\<close> stores
  a node index as the start of its own edge and the end of the edge before.
\<close>

datatype Node = Node (node_x: real) (node_y: real) (node_z: real)

datatype edge_type = Type_GreatCircleArc | Type_ConstantLatitude

record Edge =
  node0 :: int
  node1 :: int
  etype :: edge_type

record Face =
  edges :: "Edge list"

record Mesh =
  nodes :: "Node list"
  faces :: "Face list"

definition InvalidNode :: int where
  "InvalidNode = - 1"

definition new_Face :: "nat \<Rightarrow> Face" where
  "new_Face n =
     \<lparr>edges = replicate n \<lparr>node0 = InvalidNode, node1 = InvalidNode, etype = Type_GreatCircleArc\<rparr>\<rparr>"

definition SetNode :: "Face \<Rightarrow> nat \<Rightarrow> int \<Rightarrow> Face" where
  "SetNode f ixLocal ixNode =
     (let nEdges = length (edges f);
          es = (edges f)[ixLocal := (edges f ! ixLocal)\<lparr>node0 := ixNode\<rparr>];
          ixPrev = (ixLocal + nEdges - 1) mod nEdges
      in f\<lparr>edges := es[ixPrev := (es ! ixPrev)\<lparr>node1 := ixNode\<rparr>]\<rparr>)"

text \<open>\<open>face.edges[k].type = t\<close>.\<close>

definition set_edge_type :: "Face \<Rightarrow> nat \<Rightarrow> edge_type \<Rightarrow> Face" where
  "set_edge_type f k t = f\<lparr>edges := (edges f)[k := (edges f ! k)\<lparr>etype := t\<rparr>]\<rparr>"

text \<open>The node loop of a face: \<open>face[0], ..., face[n-1]\<close>.\<close>

definition face_nodes :: "Face \<Rightarrow> int list" where
  "face_nodes f = map node0 (edges f)"

subsection \<open>The faces of the latitude-longitude mesh\<close>

text \<open>
  Line 29 of GenerateRLLMesh.cpp is \<^verbatim>\<open>#define ONLY_GREAT_CIRCLES\<close>. The two
  assignments that each face construction guards with
  \<^verbatim>\<open>#ifndef ONLY_GREAT_CIRCLES\<close> are the function \<open>latitude_edges\<close>, whose
  first argument says whether the macro is defined.
\<close>

definition ONLY_GREAT_CIRCLES :: bool where
  "ONLY_GREAT_CIRCLES = True"

definition latitude_edges :: "bool \<Rightarrow> Face \<Rightarrow> Face" where
  "latitude_edges only_great_circles f =
     (if only_great_circles then f
      else set_edge_type (set_edge_type f 1 Type_ConstantLatitude) 3 Type_ConstantLatitude)"

definition quad :: "bool \<Rightarrow> int \<Rightarrow> int \<Rightarrow> int \<Rightarrow> int \<Rightarrow> Face" where
  "quad only_great_circles n0 n1 n2 n3 =
     latitude_edges only_great_circles
       (SetNode (SetNode (SetNode (SetNode (new_Face 4) 0 n0) 1 n1) 2 n2) 3 n3)"

text \<open>The body of the loop of lines 339-352.\<close>

definition south_polar_face :: "bool \<Rightarrow> int \<Rightarrow> int \<Rightarrow> Face" where
  "south_polar_face gc nLongitudeNodes i =
     quad gc 0 ((i + 1) smod nLongitudeNodes + 1) (i + 1) 0"

text \<open>The body of the inner loop of lines 362-375.\<close>

definition interior_face :: "bool \<Rightarrow> int \<Rightarrow> int \<Rightarrow> int \<Rightarrow> int \<Rightarrow> Face" where
  "interior_face gc nLongitudeNodes iThisLatNodeIx iNextLatNodeIx i =
     quad gc
       (iThisLatNodeIx + (i + 1) smod nLongitudeNodes)
       (iNextLatNodeIx + (i + 1) smod nLongitudeNodes)
       (iNextLatNodeIx + i)
       (iThisLatNodeIx + i)"

text \<open>The body of the loop of lines 386-399.\<close>

definition north_polar_face :: "bool \<Rightarrow> int \<Rightarrow> int \<Rightarrow> int \<Rightarrow> int \<Rightarrow> Face" where
  "north_polar_face gc nLongitudeNodes iThisLatNodeIx iNorthPolarNodeIx i =
     quad gc
       iNorthPolarNodeIx
       (iThisLatNodeIx + i)
       (iThisLatNodeIx + (i + 1) smod nLongitudeNodes)
       iNorthPolarNodeIx"

definition south_polar_faces :: "bool \<Rightarrow> int \<Rightarrow> int \<Rightarrow> bool \<Rightarrow> Face list" where
  "south_polar_faces gc nLongitudes nLongitudeNodes fIncludeSouthPole =
     (if fIncludeSouthPole
      then map (south_polar_face gc nLongitudeNodes) [0..nLongitudes - 1]
      else [])"

definition interior_faces :: "bool \<Rightarrow> int \<Rightarrow> int \<Rightarrow> int \<Rightarrow> int \<Rightarrow> int \<Rightarrow> Face list" where
  "interior_faces gc nLongitudes nLongitudeNodes iSouthPoleOffset iInteriorLatBegin iInteriorLatEnd =
     concat (map
       (\<lambda>j. let jx = j - iInteriorLatBegin;
                iThisLatNodeIx = jx * nLongitudeNodes + iSouthPoleOffset;
                iNextLatNodeIx = (jx + 1) * nLongitudeNodes + iSouthPoleOffset
            in map (interior_face gc nLongitudeNodes iThisLatNodeIx iNextLatNodeIx)
                 [0..nLongitudes - 1])
       [iInteriorLatBegin..iInteriorLatEnd - 1])"

definition north_polar_faces ::
  "bool \<Rightarrow> int \<Rightarrow> int \<Rightarrow> int \<Rightarrow> int \<Rightarrow> int \<Rightarrow> bool \<Rightarrow> nat \<Rightarrow> Face list" where
  "north_polar_faces gc nLongitudes nLatitudes nLongitudeNodes iSouthPoleOffset iInteriorLatBegin
       fIncludeNorthPole nodes_size =
     (if fIncludeNorthPole
      then (let jx = nLatitudes - iInteriorLatBegin - 1;
                iThisLatNodeIx = jx * nLongitudeNodes + iSouthPoleOffset;
                iNorthPolarNodeIx = int nodes_size - 1
            in map (north_polar_face gc nLongitudeNodes iThisLatNodeIx iNorthPolarNodeIx)
                 [0..nLongitudes - 1])
      else [])"

text \<open>
  The reordering of lines 403-411:
  \<^verbatim>\<open>for i < nLongitudes: for j < nLatitudes: push_back(faceTemp[j * nLongitudes + i])\<close>
\<close>

definition flip_faces :: "int \<Rightarrow> int \<Rightarrow> Face list \<Rightarrow> failure + Face list" where
  "flip_faces nLongitudes nLatitudes faceTemp =
     collect (concat (map
       (\<lambda>i. map (\<lambda>j. read_at ''faceTemp'' faceTemp (j * nLongitudes + i)) [0..nLatitudes - 1])
       [0..nLongitudes - 1]))"

subsection \<open>The nodes of the latitude-longitude mesh\<close>

text \<open>The body of the inner loop of lines 321-331.\<close>

definition interior_node :: "real list \<Rightarrow> real list \<Rightarrow> int \<Rightarrow> int \<Rightarrow> failure + Node" where
  "interior_node dLonEdge dLatEdge j i =
     and_then (read_at ''dLonEdge'' dLonEdge i) (\<lambda>dLambda.
     and_then (read_at ''dLatEdge'' dLatEdge j) (\<lambda>dPhi.
       Inr (Node (cos dPhi * cos dLambda) (cos dPhi * sin dLambda) (sin dPhi))))"

text \<open>Lines 316-335.\<close>

definition generate_nodes ::
  "real list \<Rightarrow> real list \<Rightarrow> int \<Rightarrow> int \<Rightarrow> int \<Rightarrow> bool \<Rightarrow> bool \<Rightarrow> failure + Node list" where
  "generate_nodes dLonEdge dLatEdge nLongitudeNodes iInteriorLatBegin iInteriorLatEnd
       fIncludeSouthPole fIncludeNorthPole =
     collect
       ((if fIncludeSouthPole then [Inr (Node 0 0 (- 1))] else [])
        @ concat (map
            (\<lambda>j. map (interior_node dLonEdge dLatEdge j) [0..nLongitudeNodes - 1])
            [iInteriorLatBegin..iInteriorLatEnd])
        @ (if fIncludeNorthPole then [Inr (Node 0 0 1)] else []))"

subsection \<open>The longitude and latitude arrays\<close>

text \<open>
  \<open>fmod(x, y)\<close> of the C library: the remainder of the division truncated
  towards zero, with the sign of \<open>x\<close>.
\<close>

definition trunc :: "real \<Rightarrow> int" where
  "trunc r = (if 0 \<le> r then \<lfloor>r\<rfloor> else \<lceil>r\<rceil>)"

definition fmod :: "real \<Rightarrow> real \<Rightarrow> real" where
  "fmod a b = a - of_int (trunc (a / b)) * b"

text \<open>
  The command line of GenerateRLLMesh: one field per option, under the
  option's name (\<open>--verbose\<close> and \<open>--file\<close> only affect what is printed and
  where the mesh is written). \<open>opt_in_file\<close> is \<open>None\<close> when \<open>--in_file\<close> is
  the empty string, and otherwise what the NetCDF library finds at that
  path: whether the file opens, the sizes of the dimensions \<open>lon\<close> and \<open>lat\<close>
  (\<open>None\<close> for a null \<open>NcDim *\<close>) and the values of the variables \<open>lon\<close> and
  \<open>lat\<close> by position (\<open>None\<close> for a null \<open>NcVar *\<close>).
\<close>

record nc_file =
  nc_path :: string
  nc_is_valid :: bool
  nc_dim_lon :: "int option"
  nc_dim_lat :: "int option"
  nc_var_lon :: "(int \<Rightarrow> real) option"
  nc_var_lat :: "(int \<Rightarrow> real) option"

record rll_args =
  opt_lon :: int
  opt_lat :: int
  opt_lon_begin :: real
  opt_lon_end :: real
  opt_lat_begin :: real
  opt_lat_end :: real
  opt_flip :: bool
  opt_in_file :: "nc_file option"
  opt_in_global :: bool

text \<open>The defaults of lines 73-83.\<close>

definition rll_defaults :: rll_args where
  "rll_defaults =
     \<lparr>opt_lon = 128, opt_lat = 64,
      opt_lon_begin = 0, opt_lon_end = 360,
      opt_lat_begin = - 90, opt_lat_end = 90,
      opt_flip = False, opt_in_file = None, opt_in_global = False\<rparr>"

text \<open>What the first part of the \<open>try\<close> block leaves behind for the second.\<close>

record rll_arrays =
  arr_nLongitudes :: int
  arr_nLatitudes :: int
  arr_dLonEdge :: "real list"
  arr_dLatEdge :: "real list"

definition quoted :: "string \<Rightarrow> string" where
  "quoted s = CHR 0x22 # s @ [CHR 0x22]"

definition exception :: "string \<Rightarrow> failure + 'a" where
  "exception msg = Inl (Raised (Exception msg))"

text \<open>
  The loops of lines 152-162: the first pair of neighbours that decreases
  throws.
\<close>

fun monotone_increasing :: "real list \<Rightarrow> bool" where
  "monotone_increasing (a # b # rest) = (\<not> a > b \<and> monotone_increasing (b # rest))"
| "monotone_increasing _ = True"

text \<open>
  Lines 104-233, the mesh from an input data file. The test of line 130
  repeats \<open>varLon == NULL\<close>, so a missing variable \<open>lat\<close> is not refused there
  and is called through at line 149.
\<close>

definition arrays_from_file :: "nc_file \<Rightarrow> bool \<Rightarrow> failure + rll_arrays" where
  "arrays_from_file ncfileInput fForceGlobal0 =
     (if \<not> nc_is_valid ncfileInput
      then exception (''Unable to load input file '' @ quoted (nc_path ncfileInput))
      else case nc_dim_lon ncfileInput of
        None \<Rightarrow> exception (''Input file missing dimension '' @ quoted ''lon'')
      | Some nLongitudes \<Rightarrow>
      (case nc_dim_lat ncfileInput of
        None \<Rightarrow> exception (''Input file missing dimension '' @ quoted ''lat'')
      | Some nLatitudes \<Rightarrow>
      (case nc_var_lon ncfileInput of
        None \<Rightarrow> exception (''Input file missing variable '' @ quoted ''lon'')
      | Some varLon \<Rightarrow>
      (if nLongitudes < 2 then exception ''At least two longitudes required in input file''
       else if nLatitudes < 2 then exception ''At least two latitudes required in input file''
       else case nc_var_lat ncfileInput of
        None \<Rightarrow> Inl (Undefined (Null_dereference ''varLat''))
      | Some varLat \<Rightarrow>
      (let dLonNode = map varLon [0..nLongitudes - 1];
           dLatNode = map varLat [0..nLatitudes - 1]
       in if \<not> monotone_increasing dLonNode
          then exception ''Longitudes must be monotone increasing''
          else if \<not> monotone_increasing dLatNode
          then exception ''Latitudes must be monotone increasing''
          else
      (let dFirstDeltaLon = varLon 1 - varLon 0;
           dSecondLastDeltaLon = varLon (nLongitudes - 1) - varLon (nLongitudes - 2);
           dLastDeltaLon = varLon 0 - (varLon (nLongitudes - 1) - 360);
           fForceGlobal =
             (if \<bar>dFirstDeltaLon - dLastDeltaLon\<bar> < 1 / 10 ^ 12 then True else fForceGlobal0);
           dLonEdge0 =
             (if fForceGlobal then (1 / 2) * (varLon 0 + varLon (nLongitudes - 1) - 360)
              else varLon 0 - (1 / 2) * dFirstDeltaLon);
           dLonEdgeN =
             (if fForceGlobal then dLonEdge0
              else varLon (nLongitudes - 1) + (1 / 2) * dSecondLastDeltaLon);
           dLonEdge =
             dLonEdge0
             # map (\<lambda>i. (1 / 2) * (varLon (i - 1) + varLon i)) [1..nLongitudes - 1]
             @ [dLonEdgeN];
           dLatEdge0 = varLat 0 - (1 / 2) * (varLat 1 - varLat 0);
           dLatEdgeN =
             varLat (nLatitudes - 1)
             + (1 / 2) * (varLat (nLatitudes - 1) - varLat (nLatitudes - 2));
           dLatEdge =
             (if dLatEdge0 < - 90 then - 90 else dLatEdge0)
             # map (\<lambda>j. (1 / 2) * (varLat (j - 1) + varLat j)) [1..nLatitudes - 1]
             @ [if dLatEdgeN > 90 then 90 else dLatEdgeN]
       in Inr \<lparr>arr_nLongitudes = nLongitudes, arr_nLatitudes = nLatitudes,
               arr_dLonEdge = map (\<lambda>v. v * (pi / 180)) dLonEdge,
               arr_dLatEdge = map (\<lambda>v. v * (pi / 180)) dLatEdge\<rparr>))))))"

text \<open>
  Lines 236-266, the mesh from the parameters. \<open>Initialize(n + 1)\<close> followed
  by the loop \<open>for (i = 0; i <= n; i++)\<close> gives the \<open>n + 1\<close> rows; there is no row
  when \<open>n + 1\<close> is not positive.
\<close>

definition arrays_from_parameters :: "rll_args \<Rightarrow> rll_arrays" where
  "arrays_from_parameters a =
     (let nLongitudes = opt_lon a;
          nLatitudes = opt_lat a;
          dLonBegin = opt_lon_begin a * (pi / 180);
          dLonEnd = opt_lon_end a * (pi / 180);
          dLatBegin = opt_lat_begin a * (pi / 180);
          dLatEnd = opt_lat_end a * (pi / 180);
          dDeltaLon = dLonEnd - dLonBegin;
          dDeltaLat = dLatEnd - dLatBegin
      in \<lparr>arr_nLongitudes = nLongitudes, arr_nLatitudes = nLatitudes,
          arr_dLonEdge =
            map (\<lambda>i. dDeltaLon * (of_int i / of_int nLongitudes) + dLonBegin) [0..nLongitudes],
          arr_dLatEdge =
            map (\<lambda>j. dDeltaLat * (of_int j / of_int nLatitudes) + dLatBegin) [0..nLatitudes]\<rparr>)"

subsection \<open>\<open>main\<close> of GenerateRLLMesh\<close>

text \<open>
  Lines 284-288, the bounds: \<open>(dLatBegin, dLatEnd, dLonBegin, dLonEnd)\<close>. The
  last of the four reads is \<^verbatim>\<open>dLonEnd = dLatEdge[dLonEdge.GetRows()-1]\<close>.
\<close>

definition set_bounds :: "real list \<Rightarrow> real list \<Rightarrow> failure + real \<times> real \<times> real \<times> real" where
  "set_bounds dLonEdge dLatEdge =
     and_then (read_at ''dLatEdge'' dLatEdge 0) (\<lambda>dLatBegin.
     and_then (read_at ''dLatEdge'' dLatEdge (int (length dLatEdge) - 1)) (\<lambda>dLatEnd.
     and_then (read_at ''dLonEdge'' dLonEdge 0) (\<lambda>dLonBegin.
     and_then (read_at ''dLatEdge'' dLatEdge (int (length dLonEdge) - 1)) (\<lambda>dLonEnd.
       Inr (dLatBegin, dLatEnd, dLonBegin, dLonEnd)))))"

text \<open>
  Lines 304-411: from the three flags to the mesh, that is, the offsets, the
  nodes, the faces and the reordering.
\<close>

definition build_mesh :: "bool \<Rightarrow> bool \<Rightarrow> rll_arrays \<Rightarrow> bool \<Rightarrow> bool \<Rightarrow> bool \<Rightarrow> failure + Mesh" where
  "build_mesh gc fFlipLatLon arr fWrapLongitudes fIncludeSouthPole fIncludeNorthPole =
     (let nLongitudes = arr_nLongitudes arr;
          nLatitudes = arr_nLatitudes arr;
          iSouthPoleOffset = (if fIncludeSouthPole then 1 else 0);
          iInteriorLatBegin = (if fIncludeSouthPole then 1 else 0);
          iInteriorLatEnd = (if fIncludeNorthPole then nLatitudes - 1 else nLatitudes);
          nLongitudeNodes = (if \<not> fWrapLongitudes then nLongitudes + 1 else nLongitudes)
      in and_then
           (generate_nodes (arr_dLonEdge arr) (arr_dLatEdge arr) nLongitudeNodes
              iInteriorLatBegin iInteriorLatEnd fIncludeSouthPole fIncludeNorthPole) (\<lambda>ns.
     (let fs =
            south_polar_faces gc nLongitudes nLongitudeNodes fIncludeSouthPole
            @ interior_faces gc nLongitudes nLongitudeNodes iSouthPoleOffset
                iInteriorLatBegin iInteriorLatEnd
            @ north_polar_faces gc nLongitudes nLatitudes nLongitudeNodes iSouthPoleOffset
                iInteriorLatBegin fIncludeNorthPole (length ns)
      in and_then (if fFlipLatLon then flip_faces nLongitudes nLatitudes fs else Inr fs) (\<lambda>fs'.
           Inr \<lparr>nodes = ns, faces = fs'\<rparr>))))"

text \<open>
  Lines 276-302: the checks of the arrays, the bounds and the three flags;
  then the mesh.
\<close>

definition generate_mesh :: "bool \<Rightarrow> bool \<Rightarrow> rll_arrays \<Rightarrow> failure + Mesh" where
  "generate_mesh gc fFlipLatLon arr =
     (if length (arr_dLatEdge arr) < 2 then exception ''Invalid array of latitudes''
      else if length (arr_dLonEdge arr) < 2 then exception ''Invalid array of longitudes''
      else and_then (set_bounds (arr_dLonEdge arr) (arr_dLatEdge arr))
        (\<lambda>(dLatBegin, dLatEnd, dLonBegin, dLonEnd).
           build_mesh gc fFlipLatLon arr
             (fmod (dLonEnd - dLonBegin) (2 * pi) < 1 / 10 ^ 12)
             (\<bar>dLatBegin + (1 / 2) * pi\<bar> < 1 / 10 ^ 12)
             (\<bar>dLatEnd - (1 / 2) * pi\<bar> < 1 / 10 ^ 12)))"

text \<open>
  The \<open>try\<close> block of \<open>main\<close>. The writing of the mesh and of its attributes
  (lines 417-435) is done by the mesh and NetCDF libraries; what it throws,
  if anything, is the parameter \<open>write\<close>.
\<close>

definition rll_try_block :: "bool \<Rightarrow> rll_args \<Rightarrow> (Mesh \<Rightarrow> thrown option) \<Rightarrow> failure + Mesh" where
  "rll_try_block gc a write =
     (if opt_lat_begin a \<ge> opt_lat_end a
      then exception ''--lat_begin and --lat_end must specify a positive interval''
      else if opt_lon_begin a \<ge> opt_lon_end a
      then exception ''--lon_begin and --lon_end must specify a positive interval''
      else and_then
             (case opt_in_file a of
                Some ncfileInput \<Rightarrow> arrays_from_file ncfileInput (opt_in_global a)
              | None \<Rightarrow> Inr (arrays_from_parameters a)) (\<lambda>arr.
           and_then (generate_mesh gc (opt_flip a) arr) (\<lambda>mesh.
             case write mesh of
               Some t \<Rightarrow> Inl (Raised t)
             | None \<Rightarrow> Inr mesh)))"

definition rll_main :: "rll_args \<Rightarrow> (Mesh \<Rightarrow> thrown option) \<Rightarrow> program_end" where
  "rll_main a write = try_catch (rll_try_block ONLY_GREAT_CIRCLES a write)"

section \<open>GenerateOverlapMeshExe_v1\<close>

text \<open>
  The command line of GenerateOverlapMeshExe_v1 (lines 44-52): a string
  option is \<open>None\<close> when it is not given, and then takes the default of its
  \<open>CommandLineString\<close> line.
\<close>

record overlap_args =
  opt_a :: "string option"
  opt_b :: "string option"
  opt_out :: "string option"
  opt_method :: "string option"
  opt_novalidate :: bool

definition or_default :: "string option \<Rightarrow> string \<Rightarrow> string" where
  "or_default v d = (case v of None \<Rightarrow> d | Some s \<Rightarrow> s)"

text \<open>\<^verbatim>\<open>CommandLineStringD(strMethod, "method", "fuzzy", "(fuzzy|exact|mixed)")\<close>\<close>

definition strMethod :: "overlap_args \<Rightarrow> string" where
  "strMethod c = or_default (opt_method c) ''fuzzy''"

text \<open>
  \<open>GenerateOverlapMesh_v1\<close> is declared in TempestRemapAPI.h and defined outside
  of the sources; \<open>main\<close> receives it as a parameter. A call either returns an
  \<open>int\<close> or lets a thrown object escape.
\<close>

datatype api_outcome = Returned int | Threw thrown

type_synonym overlap_api = "string \<Rightarrow> string \<Rightarrow> string \<Rightarrow> string \<Rightarrow> bool \<Rightarrow> api_outcome"

text \<open>
  Lines 56-63: \<^verbatim>\<open>int err = GenerateOverlapMesh_v1(...); if (err) exit(err); else return 0;\<close>
  There is no \<open>try\<close> block in this \<open>main\<close>: a thrown object that escapes the
  call ends the program through \<open>std::terminate\<close>.
\<close>

definition overlap_main :: "overlap_args \<Rightarrow> overlap_api \<Rightarrow> program_end" where
  "overlap_main c GenerateOverlapMesh_v1 =
     (let strMeshA = or_default (opt_a c) '''';
          strMeshB = or_default (opt_b c) '''';
          strOverlapMesh = or_default (opt_out c) ''overlap.g'';
          fNoValidate = opt_novalidate c
      in case GenerateOverlapMesh_v1 strMeshA strMeshB strOverlapMesh (strMethod c) fNoValidate of
           Returned err \<Rightarrow> (if err \<noteq> 0 then Exit err else Exit 0)
         | Threw t \<Rightarrow> Terminate_called)"






section \<open>The vocabulary of the properties\<close>

text \<open>
  A node loop in which every node differs from the next one, the first
  node being the next of the last, and which has at least three nodes.
\<close>

definition consecutive_distinct :: "int list \<Rightarrow> bool" where
  "consecutive_distinct ns =
     (3 \<le> length ns \<and> list_all (\<lambda>(a, b). a \<noteq> b) (zip ns (rotate1 ns)))"

text \<open>
  The node loop of a polar face: four entries, the pole as the first and
  as the last one, and no other repetition between neighbours.
\<close>

definition polar_loop :: "int \<Rightarrow> int list \<Rightarrow> bool" where
  "polar_loop pole ns =
     (case ns of
        [n0, n1, n2, n3] \<Rightarrow> n0 = pole \<and> n3 = pole \<and> pole \<noteq> n1 \<and> n1 \<noteq> n2 \<and> n2 \<noteq> pole
      | _ \<Rightarrow> False)"



text \<open>
  The three groups of faces that \<open>build_mesh\<close> appends, for the arrays and the
  flags of a run: the faces around the south pole (lines 337-353), the
  interior faces (lines 355-376) and the faces around the north pole (lines
  378-400, which take the pole's index from the number of nodes).
\<close>

definition longitude_nodes :: "rll_arrays \<Rightarrow> bool \<Rightarrow> int" where
  "longitude_nodes arr fWrapLongitudes =
     (if \<not> fWrapLongitudes then arr_nLongitudes arr + 1 else arr_nLongitudes arr)"

definition south_band :: "bool \<Rightarrow> rll_arrays \<Rightarrow> bool \<Rightarrow> bool \<Rightarrow> Face list" where
  "south_band gc arr fWrapLongitudes fIncludeSouthPole =
     south_polar_faces gc (arr_nLongitudes arr) (longitude_nodes arr fWrapLongitudes)
       fIncludeSouthPole"

definition interior_band :: "bool \<Rightarrow> rll_arrays \<Rightarrow> bool \<Rightarrow> bool \<Rightarrow> bool \<Rightarrow> Face list" where
  "interior_band gc arr fWrapLongitudes fIncludeSouthPole fIncludeNorthPole =
     interior_faces gc (arr_nLongitudes arr) (longitude_nodes arr fWrapLongitudes)
       (if fIncludeSouthPole then 1 else 0) (if fIncludeSouthPole then 1 else 0)
       (if fIncludeNorthPole then arr_nLatitudes arr - 1 else arr_nLatitudes arr)"

definition north_band ::
  "bool \<Rightarrow> rll_arrays \<Rightarrow> bool \<Rightarrow> bool \<Rightarrow> bool \<Rightarrow> nat \<Rightarrow> Face list" where
  "north_band gc arr fWrapLongitudes fIncludeSouthPole fIncludeNorthPole nodes_size =
     north_polar_faces gc (arr_nLongitudes arr) (arr_nLatitudes arr)
       (longitude_nodes arr fWrapLongitudes)
       (if fIncludeSouthPole then 1 else 0) (if fIncludeSouthPole then 1 else 0)
       fIncludeNorthPole nodes_size"

definition bands :: "bool \<Rightarrow> rll_arrays \<Rightarrow> bool \<Rightarrow> bool \<Rightarrow> bool \<Rightarrow> nat \<Rightarrow> Face list" where
  "bands gc arr fW fS fN nodes_size =
     south_band gc arr fW fS @ interior_band gc arr fW fS fN
     @ north_band gc arr fW fS fN nodes_size"

text \<open>
  A mesh in bands, for the arrays and the flags it was built from: its faces are the three groups, reordered when
  \<open>--flip\<close> is given; each face has four nodes; the loops of the two polar
  groups hold the pole (node 0, the last node) first and last; the loops of
  the interior group have no repetition between neighbours, the closure
  included; and the two poles are where the polar loops point.
\<close>

definition banded :: "bool \<Rightarrow> bool \<Rightarrow> rll_arrays \<Rightarrow> bool \<Rightarrow> bool \<Rightarrow> bool \<Rightarrow> Mesh \<Rightarrow> bool" where
  "banded gc fFlipLatLon arr fW fS fN m =
     ((if fFlipLatLon
       then flip_faces (arr_nLongitudes arr) (arr_nLatitudes arr)
              (bands gc arr fW fS fN (length (nodes m)))
       else Inr (bands gc arr fW fS fN (length (nodes m)))) = Inr (faces m)
      \<and> list_all (\<lambda>f. f \<in> set (bands gc arr fW fS fN (length (nodes m)))) (faces m)
      \<and> list_all (\<lambda>f. length (face_nodes f) = 4) (bands gc arr fW fS fN (length (nodes m)))
      \<and> list_all (\<lambda>f. polar_loop 0 (face_nodes f)) (south_band gc arr fW fS)
      \<and> list_all (\<lambda>f. consecutive_distinct (face_nodes f)) (interior_band gc arr fW fS fN)
      \<and> list_all (\<lambda>f. polar_loop (int (length (nodes m)) - 1) (face_nodes f))
            (north_band gc arr fW fS fN (length (nodes m)))
      \<and> (if fS then nodes m \<noteq> [] \<and> hd (nodes m) = Node 0 0 (- 1) else south_band gc arr fW fS = [])
      \<and> (if fN then nodes m \<noteq> [] \<and> last (nodes m) = Node 0 0 1
          else north_band gc arr fW fS fN (length (nodes m)) = []))"



definition all_great_circles :: "Face \<Rightarrow> bool" where
  "all_great_circles f = list_all (\<lambda>e. etype e = Type_GreatCircleArc) (edges f)"

text \<open>
  The edges 1 and 3 of a face of the generator join two nodes of the same
  latitude row; they are its latitude-parallel edges.
\<close>

definition latitude_parallel_types :: "Face \<Rightarrow> edge_type list" where
  "latitude_parallel_types f = [etype (edges f ! 1), etype (edges f ! 3)]"

text \<open>
  A small run of the generator: \<open>--lon 2 --lat 3\<close>, every other option at its
  default, and a writer that throws nothing. The generator's mesh for
  it has a south pole, three nodes on each of the latitudes \<open>-pi/6\<close> and
  \<open>pi/6\<close>, a north pole, and two faces in each of the three bands.
\<close>

definition lon2_lat3 :: rll_args where
  "lon2_lat3 = rll_defaults\<lparr>opt_lon := 2, opt_lat := 3\<rparr>"

definition write_ok :: "Mesh \<Rightarrow> thrown option" where
  "write_ok mesh = None"

definition mesh_lon2_lat3 :: "bool \<Rightarrow> Mesh" where
  "mesh_lon2_lat3 gc =
     \<lparr>nodes =
        [Node 0 0 (- 1),
         Node (cos (pi / 6)) 0 (- sin (pi / 6)),
         Node (- cos (pi / 6)) 0 (- sin (pi / 6)),
         Node (cos (pi / 6)) 0 (- sin (pi / 6)),
         Node (cos (pi / 6)) 0 (sin (pi / 6)),
         Node (- cos (pi / 6)) 0 (sin (pi / 6)),
         Node (cos (pi / 6)) 0 (sin (pi / 6)),
         Node 0 0 1],
      faces =
        [quad gc 0 2 1 0, quad gc 0 3 2 0,
         quad gc 2 5 4 1, quad gc 3 6 5 2,
         quad gc 7 4 5 7, quad gc 7 5 6 7]\<rparr>"



section \<open>Properties of GenerateTestData\<close>

lemma vortex_Vt_Some:
  "vortex_Vt dRho = Some (3 * sqrt 3 / 2 / cosh dRho / cosh dRho * tanh dRho)"
  by (simp add: vortex_Vt_def checked_div_def)

text \<open>
  C10. Evaluating the stationary vortex is total: for every longitude and
  latitude the function has a value, that is, none of the divisions it
  performs has a zero divisor. The angular velocity is 0 when \<open>dRho\<close> is 0,
  and is the quotient \<open>dVt / dRho\<close>, with a non-zero divisor, otherwise.
\<close>

theorem vortex_total:
  "(\<exists>y. eval_test TestFunctionVortex dLon dLat = Some y)
   \<and> vortex_Omega 0 dVt = Some 0
   \<and> (\<exists>w. vortex_Omega dRho dVt = Some w \<and> (if dRho = 0 then w = 0 else w * dRho = dVt))"
proof -
  have 1: "\<exists>y. eval_test TestFunctionVortex dLon dLat = Some y"
    by (simp add: Vortex_def Let_def vortex_Vt_Some vortex_Omega_def checked_div_def)
  have 2: "vortex_Omega 0 dVt = Some 0"
    by (simp add: vortex_Omega_def)
  have 3: "\<exists>w. vortex_Omega dRho dVt = Some w \<and> (if dRho = 0 then w = 0 else w * dRho = dVt)"
    by (simp add: vortex_Omega_def checked_div_def)
  from 1 2 3 show ?thesis by blast
qed

theorem vortex_total_witness:
  "(\<exists>y. eval_test TestFunctionVortex 0 0 = Some y)
   \<and> vortex_Omega 0 1 = Some 0
   \<and> vortex_Omega 2 1 = Some (1 / 2)"
  using vortex_total [of 0 0 1 2]
  by (simp add: vortex_Omega_def checked_div_def)

text \<open>
  C9. The generator accepts exactly the test indices 1, 2, 3 and 4, which
  select the low-order harmonic, the high-frequency harmonic, the stationary
  vortex and the constant function 1; every other index raises the Exception
  whose message reads \<open>Test index out of range; expected [1,2,3]\<close>, and
  \<open>main\<close> then returns -1 (unless the arguments were already refused).
\<close>

theorem select_test_range:
  "((\<exists>t. select_test i = Inr t) \<longleftrightarrow> i \<in> {1, 2, 3, 4})
   \<and> select_test 1 = Inr TestFunctionY2b2
   \<and> select_test 2 = Inr TestFunctionY16b32
   \<and> select_test 3 = Inr TestFunctionVortex
   \<and> select_test 4 = Inr TestFunction1
   \<and> (i \<notin> {1, 2, 3, 4} \<longrightarrow>
        select_test i = Inl (Raised (Exception ''Test index out of range; expected [1,2,3]''))
        \<and> (\<not> (fGLLIntegrate \<and> fGLL) \<longrightarrow> testdata_main fGLL fGLLIntegrate i rest = Exit (- 1)))"
  by (simp add: select_test_def testdata_main_def testdata_body_def)

theorem select_test_range_witness:
  "((\<exists>t. select_test 4 = Inr t) \<longleftrightarrow> (4::int) \<in> {1, 2, 3, 4})
   \<and> (5::int) \<notin> {1, 2, 3, 4}
   \<and> select_test 5 = Inl (Raised (Exception ''Test index out of range; expected [1,2,3]''))
   \<and> \<not> (False \<and> False)
   \<and> testdata_main False False 5 (\<lambda>_. None) = Exit (- 1)
   \<and> select_test 0 = Inl (Raised (Exception ''Test index out of range; expected [1,2,3]''))"
  using select_test_range [of 4 False False "\<lambda>_. None"]
        select_test_range [of 5 False False "\<lambda>_. None"]
        select_test_range [of 0 False False "\<lambda>_. None"]
  by simp

section \<open>Properties of GenerateRLLMesh\<close>

subsection \<open>Sequencing, indices and faces\<close>

lemma and_then_simps:
  "and_then (Inl e) f = Inl e"
  "and_then (Inr v) f = f v"
  by (simp_all add: and_then_def)

lemma and_then_Inr:
  "and_then r f = Inr y \<longleftrightarrow> (\<exists>v. r = Inr v \<and> f v = Inr y)"
  by (cases r) (simp_all add: and_then_def)

lemma collect_Inr_iff: "collect rs = Inr vs \<longleftrightarrow> rs = map Inr vs"
proof (induction rs arbitrary: vs)
  case Nil
  then show ?case by auto
next
  case (Cons r rs)
  show ?case
  proof (cases r)
    case (Inl e)
    then show ?thesis by (cases vs) simp_all
  next
    case (Inr v)
    then show ?thesis
      using Cons.IH by (cases vs; cases "collect rs") auto
  qed
qed

lemma smod_nonneg: "0 \<le> a \<Longrightarrow> 0 < b \<Longrightarrow> a smod b = a mod (b::int)"
  by (simp add: signed_modulo_int_def sgn_if)

lemma next_index:
  assumes "0 \<le> i" "i < n" "2 \<le> (n::int)"
  shows "(i + 1) smod n \<noteq> i" "0 \<le> (i + 1) smod n" "(i + 1) smod n < n"
proof -
  have eq: "(i + 1) smod n = (i + 1) mod n"
    using assms by (simp add: smod_nonneg)
  show "(i + 1) smod n \<noteq> i"
  proof (cases "i + 1 < n")
    case True
    then show ?thesis using assms eq by simp
  next
    case False
    then have "i + 1 = n" using assms by simp
    then show ?thesis using assms eq by auto
  qed
  show "0 \<le> (i + 1) smod n" "(i + 1) smod n < n"
    using assms eq by simp_all
qed

lemma new_Face_4: "new_Face 4 = \<lparr>edges = [e0, e0, e0, e0]\<rparr>"
  if "e0 = \<lparr>node0 = InvalidNode, node1 = InvalidNode, etype = Type_GreatCircleArc\<rparr>"
  unfolding new_Face_def that by (simp add: numeral_eq_Suc)

lemma SetNode_4:
  "SetNode \<lparr>edges = [a, b, c, d]\<rparr> 0 n = \<lparr>edges = [a\<lparr>node0 := n\<rparr>, b, c, d\<lparr>node1 := n\<rparr>]\<rparr>"
  "SetNode \<lparr>edges = [a, b, c, d]\<rparr> (Suc 0) n = \<lparr>edges = [a\<lparr>node1 := n\<rparr>, b\<lparr>node0 := n\<rparr>, c, d]\<rparr>"
  "SetNode \<lparr>edges = [a, b, c, d]\<rparr> 2 n = \<lparr>edges = [a, b\<lparr>node1 := n\<rparr>, c\<lparr>node0 := n\<rparr>, d]\<rparr>"
  "SetNode \<lparr>edges = [a, b, c, d]\<rparr> 3 n = \<lparr>edges = [a, b, c\<lparr>node1 := n\<rparr>, d\<lparr>node0 := n\<rparr>]\<rparr>"
  by (simp_all add: SetNode_def Let_def nth_Cons' list_update_code)

lemma quad_edges:
  "edges (quad gc n0 n1 n2 n3) =
     [\<lparr>node0 = n0, node1 = n1, etype = Type_GreatCircleArc\<rparr>,
      \<lparr>node0 = n1, node1 = n2,
         etype = (if gc then Type_GreatCircleArc else Type_ConstantLatitude)\<rparr>,
      \<lparr>node0 = n2, node1 = n3, etype = Type_GreatCircleArc\<rparr>,
      \<lparr>node0 = n3, node1 = n0,
         etype = (if gc then Type_GreatCircleArc else Type_ConstantLatitude)\<rparr>]"
  by (simp add: quad_def new_Face_4 [OF refl] SetNode_4 latitude_edges_def set_edge_type_def
      nth_Cons' list_update_code)

lemma quad_nodes: "face_nodes (quad gc n0 n1 n2 n3) = [n0, n1, n2, n3]"
  by (simp add: face_nodes_def quad_edges)

lemma consecutive_distinct_4:
  "consecutive_distinct [n0, n1, n2, n3] \<longleftrightarrow> n0 \<noteq> n1 \<and> n1 \<noteq> n2 \<and> n2 \<noteq> n3 \<and> n3 \<noteq> n0"
  by (simp add: consecutive_distinct_def)









lemma read_at_Inr: "read_at name a i = Inr v \<Longrightarrow> v \<in> set a"
  by (auto simp add: read_at_def split: if_splits)

lemma flip_faces_subset:
  assumes "flip_faces nLon nLat fs = Inr fs'"
  shows "set fs' \<subseteq> set fs"
proof
  fix f assume "f \<in> set fs'"
  then have "Inr f \<in> set (map Inr fs' :: (failure + Face) list)"
    by simp
  also have "map Inr fs' = concat (map
       (\<lambda>i. map (\<lambda>j. read_at ''faceTemp'' fs (j * nLon + i)) [0..nLat - 1]) [0..nLon - 1])"
    using assms by (simp add: flip_faces_def collect_Inr_iff)
  finally obtain i j where "read_at ''faceTemp'' fs (j * nLon + i) = Inr f"
    by auto
  then show "f \<in> set fs" by (rule read_at_Inr)
qed



lemma generate_nodes_length:
  assumes "generate_nodes dLonEdge dLatEdge nLN iB iE fS fN = Inr ns"
  shows "length ns =
     (if fS then 1 else 0) + nat (iE - iB + 1) * nat nLN + (if fN then 1 else 0)"
proof -
  have "length ns = length (map Inr ns :: (failure + Node) list)"
    by simp
  also have "map Inr ns =
       (if fS then [Inr (Node 0 0 (- 1))] else [])
        @ concat (map (\<lambda>j. map (interior_node dLonEdge dLatEdge j) [0..nLN - 1]) [iB..iE])
        @ (if fN then [Inr (Node 0 0 1)] else [])"
    using assms by (simp add: generate_nodes_def collect_Inr_iff)
  also have "length \<dots> =
     (if fS then 1 else 0) + nat (iE - iB + 1) * nat nLN + (if fN then 1 else 0)"
    by (simp add: length_concat comp_def sum_list_triv)
  finally show ?thesis .
qed


lemma build_mesh_Inr:
  assumes "build_mesh gc flip arr fW fS fN = Inr m"
  defines "nLN \<equiv> (if \<not> fW then arr_nLongitudes arr + 1 else arr_nLongitudes arr)"
    and "iB \<equiv> (if fS then 1 else 0 :: int)"
    and "iE \<equiv> (if fN then arr_nLatitudes arr - 1 else arr_nLatitudes arr)"
  defines "fs \<equiv>
       south_polar_faces gc (arr_nLongitudes arr) nLN fS
       @ interior_faces gc (arr_nLongitudes arr) nLN iB iB iE
       @ north_polar_faces gc (arr_nLongitudes arr) (arr_nLatitudes arr) nLN iB iB fN
           (length (nodes m))"
  shows "generate_nodes (arr_dLonEdge arr) (arr_dLatEdge arr) nLN iB iE fS fN = Inr (nodes m)"
    and "(if flip then flip_faces (arr_nLongitudes arr) (arr_nLatitudes arr) fs else Inr fs)
           = Inr (faces m)"
proof -
  have *: "and_then (generate_nodes (arr_dLonEdge arr) (arr_dLatEdge arr) nLN iB iE fS fN)
     (\<lambda>ns. and_then
        (if flip then flip_faces (arr_nLongitudes arr) (arr_nLatitudes arr)
                (south_polar_faces gc (arr_nLongitudes arr) nLN fS
                 @ interior_faces gc (arr_nLongitudes arr) nLN iB iB iE
                 @ north_polar_faces gc (arr_nLongitudes arr) (arr_nLatitudes arr) nLN iB iB fN
                     (length ns))
         else Inr
                (south_polar_faces gc (arr_nLongitudes arr) nLN fS
                 @ interior_faces gc (arr_nLongitudes arr) nLN iB iB iE
                 @ north_polar_faces gc (arr_nLongitudes arr) (arr_nLatitudes arr) nLN iB iB fN
                     (length ns)))
        (\<lambda>fs'. Inr \<lparr>nodes = ns, faces = fs'\<rparr>)) = Inr m"
    using assms(1) unfolding build_mesh_def Let_def nLN_def iB_def iE_def .
  then obtain ns where
    ns: "generate_nodes (arr_dLonEdge arr) (arr_dLatEdge arr) nLN iB iE fS fN = Inr ns"
    and rest: "and_then
        (if flip then flip_faces (arr_nLongitudes arr) (arr_nLatitudes arr)
                (south_polar_faces gc (arr_nLongitudes arr) nLN fS
                 @ interior_faces gc (arr_nLongitudes arr) nLN iB iB iE
                 @ north_polar_faces gc (arr_nLongitudes arr) (arr_nLatitudes arr) nLN iB iB fN
                     (length ns))
         else Inr
                (south_polar_faces gc (arr_nLongitudes arr) nLN fS
                 @ interior_faces gc (arr_nLongitudes arr) nLN iB iB iE
                 @ north_polar_faces gc (arr_nLongitudes arr) (arr_nLatitudes arr) nLN iB iB fN
                     (length ns)))
        (\<lambda>fs'. Inr \<lparr>nodes = ns, faces = fs'\<rparr>) = Inr m"
    unfolding and_then_Inr [of "generate_nodes _ _ _ _ _ _ _"] by (elim exE conjE)
  from rest obtain fs' where
    fs': "(if flip then flip_faces (arr_nLongitudes arr) (arr_nLatitudes arr)
                (south_polar_faces gc (arr_nLongitudes arr) nLN fS
                 @ interior_faces gc (arr_nLongitudes arr) nLN iB iB iE
                 @ north_polar_faces gc (arr_nLongitudes arr) (arr_nLatitudes arr) nLN iB iB fN
                     (length ns))
         else Inr
                (south_polar_faces gc (arr_nLongitudes arr) nLN fS
                 @ interior_faces gc (arr_nLongitudes arr) nLN iB iB iE
                 @ north_polar_faces gc (arr_nLongitudes arr) (arr_nLatitudes arr) nLN iB iB fN
                     (length ns))) = Inr fs'"
    and m: "Inr \<lparr>nodes = ns, faces = fs'\<rparr> = (Inr m :: failure + Mesh)"
    unfolding and_then_Inr by (elim exE conjE)
  from m have m': "nodes m = ns" "faces m = fs'"
    by auto
  show "generate_nodes (arr_dLonEdge arr) (arr_dLatEdge arr) nLN iB iE fS fN = Inr (nodes m)"
    using ns m' by simp
  show "(if flip then flip_faces (arr_nLongitudes arr) (arr_nLatitudes arr) fs else Inr fs)
           = Inr (faces m)"
    using fs' unfolding fs_def m' .
qed




lemma generate_mesh_Inr:
  assumes "generate_mesh gc flip arr = Inr m"
  shows "\<exists>fW fS fN. build_mesh gc flip arr fW fS fN = Inr m"
    and "2 \<le> length (arr_dLatEdge arr)" and "2 \<le> length (arr_dLonEdge arr)"
proof -
  from assms show len: "2 \<le> length (arr_dLatEdge arr)" "2 \<le> length (arr_dLonEdge arr)"
    by (auto simp add: generate_mesh_def exception_def split: if_splits)
  with assms obtain b where
    "(case b of (dLatBegin, dLatEnd, dLonBegin, dLonEnd) \<Rightarrow>
           build_mesh gc flip arr
             (fmod (dLonEnd - dLonBegin) (2 * pi) < 1 / 10 ^ 12)
             (\<bar>dLatBegin + (1 / 2) * pi\<bar> < 1 / 10 ^ 12)
             (\<bar>dLatEnd - (1 / 2) * pi\<bar> < 1 / 10 ^ 12)) = Inr m"
    by (auto simp add: generate_mesh_def and_then_Inr)
  then show "\<exists>fW fS fN. build_mesh gc flip arr fW fS fN = Inr m"
    by (cases b) auto
qed

lemma length_arrays_from_parameters:
  "length (arr_dLonEdge (arrays_from_parameters a)) = nat (opt_lon a + 1)"
  "length (arr_dLatEdge (arrays_from_parameters a)) = nat (opt_lat a + 1)"
  "arr_nLongitudes (arrays_from_parameters a) = opt_lon a"
  "arr_nLatitudes (arrays_from_parameters a) = opt_lat a"
  by (simp_all add: arrays_from_parameters_def Let_def)

lemma arrays_from_file_Inr:
  assumes "arrays_from_file f g = Inr arr"
  shows "2 \<le> arr_nLongitudes arr" "2 \<le> arr_nLatitudes arr"
    "length (arr_dLonEdge arr) = nat (arr_nLongitudes arr + 1)"
    "length (arr_dLatEdge arr) = nat (arr_nLatitudes arr + 1)"
  using assms
  by (auto simp add: arrays_from_file_def Let_def exception_def
      split: if_splits option.splits)

lemma rll_try_block_Inr:
  assumes "rll_try_block gc a w = Inr m"
  obtains arr where "generate_mesh gc (opt_flip a) arr = Inr m"
    and "case opt_in_file a of
           None \<Rightarrow> arr = arrays_from_parameters a
         | Some f \<Rightarrow> arrays_from_file f (opt_in_global a) = Inr arr"
proof -
  from assms obtain arr where
    1: "(case opt_in_file a of
                Some ncfileInput \<Rightarrow> arrays_from_file ncfileInput (opt_in_global a)
              | None \<Rightarrow> Inr (arrays_from_parameters a)) = Inr arr"
    and 2: "and_then (generate_mesh gc (opt_flip a) arr) (\<lambda>mesh.
             case w mesh of
               Some t \<Rightarrow> Inl (Raised t)
             | None \<Rightarrow> Inr mesh) = Inr m"
    by (auto simp add: rll_try_block_def exception_def and_then_Inr split: if_splits)
  from 2 have "generate_mesh gc (opt_flip a) arr = Inr m"
    by (auto simp add: and_then_Inr split: option.splits)
  moreover from 1 have "case opt_in_file a of
           None \<Rightarrow> arr = arrays_from_parameters a
         | Some f \<Rightarrow> arrays_from_file f (opt_in_global a) = Inr arr"
    by (auto split: option.splits)
  ultimately show ?thesis by (rule that)
qed

subsection \<open>The run with two longitudes and three latitudes\<close>

lemma upto_from_0: "0 \<le> j \<Longrightarrow> [0..j] = 0 # [1..j]"
  by (simp add: upto_rec1)

lemma upto_from_1: "1 \<le> j \<Longrightarrow> [1..j] = 1 # [2..j]"
  by (simp add: upto_rec1)

lemma arrays_lon2_lat3:
  "arrays_from_parameters lon2_lat3 =
     \<lparr>arr_nLongitudes = 2, arr_nLatitudes = 3,
      arr_dLonEdge = [0, pi, 2 * pi],
      arr_dLatEdge = [- (pi / 2), - (pi / 6), pi / 6, pi / 2]\<rparr>"
  by (simp add: arrays_from_parameters_def lon2_lat3_def rll_defaults_def Let_def
      upto_from_0 upto_from_1)

lemma bounds_lon2_lat3:
  "set_bounds [0, pi, 2 * pi] [- (pi / 2), - (pi / 6), pi / 6, pi / 2]
     = Inr (- (pi / 2), pi / 2, 0, pi / 6)"
  by (simp add: set_bounds_def read_at_def and_then_simps)

lemma fmod_lon2_lat3: "fmod (pi / 6) (2 * pi) = pi / 6"
  by (simp add: fmod_def trunc_def)

lemma nodes_lon2_lat3:
  "generate_nodes [0, pi, 2 * pi] [- (pi / 2), - (pi / 6), pi / 6, pi / 2] 3 1 2 True True
     = Inr (nodes (mesh_lon2_lat3 gc))"
  by (simp add: generate_nodes_def interior_node_def read_at_def and_then_simps
      upto_from_0 upto_from_1 mesh_lon2_lat3_def)

lemma faces_lon2_lat3:
  "south_polar_faces gc 2 3 True @ interior_faces gc 2 3 1 1 2
      @ north_polar_faces gc 2 3 3 1 1 True 8
   = faces (mesh_lon2_lat3 gc)"
  by (simp add: south_polar_faces_def interior_faces_def north_polar_faces_def
      south_polar_face_def interior_face_def north_polar_face_def upto_from_0 upto_from_1
      signed_modulo_int_def Let_def mesh_lon2_lat3_def)

lemma build_lon2_lat3:
  "build_mesh gc False
     \<lparr>arr_nLongitudes = 2, arr_nLatitudes = 3,
      arr_dLonEdge = [0, pi, 2 * pi],
      arr_dLatEdge = [- (pi / 2), - (pi / 6), pi / 6, pi / 2]\<rparr> False True True
   = Inr (mesh_lon2_lat3 gc)"
proof -
  have len: "length (nodes (mesh_lon2_lat3 gc)) = 8"
    by (simp add: mesh_lon2_lat3_def)
  show ?thesis
    by (simp add: build_mesh_def Let_def nodes_lon2_lat3 [of gc] and_then_simps len
        faces_lon2_lat3)
qed

lemma generate_lon2_lat3:
  "generate_mesh gc False (arrays_from_parameters lon2_lat3) = Inr (mesh_lon2_lat3 gc)"
  unfolding arrays_lon2_lat3
  using pi_ge_two
  by (simp add: generate_mesh_def bounds_lon2_lat3 and_then_simps fmod_lon2_lat3
      build_lon2_lat3)

lemma run_lon2_lat3:
  "rll_try_block gc lon2_lat3 write_ok = Inr (mesh_lon2_lat3 gc)"
proof -
  have sel: "opt_lat_begin lon2_lat3 = - 90" "opt_lat_end lon2_lat3 = 90"
    "opt_lon_begin lon2_lat3 = 0" "opt_lon_end lon2_lat3 = 360"
    "opt_in_file lon2_lat3 = None" "opt_flip lon2_lat3 = False"
    by (simp_all add: lon2_lat3_def rll_defaults_def)
  show ?thesis
    by (simp add: rll_try_block_def sel and_then_simps generate_lon2_lat3 write_ok_def)
qed

subsection \<open>The meshes of the generator\<close>

lemma quad_types:
  "map etype (edges (quad gc n0 n1 n2 n3)) =
     (if gc
      then [Type_GreatCircleArc, Type_GreatCircleArc, Type_GreatCircleArc, Type_GreatCircleArc]
      else [Type_GreatCircleArc, Type_ConstantLatitude,
            Type_GreatCircleArc, Type_ConstantLatitude])"
  by (simp add: quad_edges)

lemma build_mesh_faces_quad:
  assumes m: "build_mesh gc flip arr fW fS fN = Inr m"
  shows "\<forall>f \<in> set (faces m). \<exists>n0 n1 n2 n3. f = quad gc n0 n1 n2 n3"
proof -
  define nLon where "nLon = arr_nLongitudes arr"
  define nLat where "nLat = arr_nLatitudes arr"
  define nLN where "nLN = (if \<not> fW then nLon + 1 else nLon)"
  define iB where "iB = (if fS then 1 else 0 :: int)"
  define iE where "iE = (if fN then nLat - 1 else nLat)"
  define fs where "fs =
       south_polar_faces gc nLon nLN fS
       @ interior_faces gc nLon nLN iB iB iE
       @ north_polar_faces gc nLon nLat nLN iB iB fN (length (nodes m))"
  note defs = nLon_def nLat_def nLN_def iB_def iE_def fs_def
  have fs': "(if flip then flip_faces nLon nLat fs else Inr fs) = Inr (faces m)"
    unfolding defs by (rule build_mesh_Inr(2) [OF m])
  have quads: "\<forall>f \<in> set fs. \<exists>n0 n1 n2 n3. f = quad gc n0 n1 n2 n3"
    unfolding fs_def south_polar_faces_def interior_faces_def north_polar_faces_def
      south_polar_face_def interior_face_def north_polar_face_def Let_def
    by (auto split: if_splits)
  have "set (faces m) \<subseteq> set fs"
    using fs' by (cases flip) (auto dest: flip_faces_subset)
  then show ?thesis
    using quads by blast
qed

lemma rll_try_block_build:
  assumes "rll_try_block gc a w = Inr m"
  obtains arr fW fS fN where "build_mesh gc (opt_flip a) arr fW fS fN = Inr m"
    and "1 \<le> arr_nLatitudes arr"
    and "case opt_in_file a of
           None \<Rightarrow> arr_nLongitudes arr = opt_lon a
         | Some f \<Rightarrow> 2 \<le> arr_nLongitudes arr"
proof -
  from assms obtain arr where gen: "generate_mesh gc (opt_flip a) arr = Inr m"
    and arr: "case opt_in_file a of
           None \<Rightarrow> arr = arrays_from_parameters a
         | Some f \<Rightarrow> arrays_from_file f (opt_in_global a) = Inr arr"
    by (rule rll_try_block_Inr)
  from generate_mesh_Inr [OF gen] obtain fW fS fN where
    build: "build_mesh gc (opt_flip a) arr fW fS fN = Inr m"
    and len: "2 \<le> length (arr_dLatEdge arr)"
    by blast
  have lat: "1 \<le> arr_nLatitudes arr"
  proof (cases "opt_in_file a")
    case None
    then show ?thesis
      using arr len by (simp add: length_arrays_from_parameters)
  next
    case (Some f)
    then show ?thesis
      using arr arrays_from_file_Inr(2) [of f "opt_in_global a" arr] by simp
  qed
  have lon: "case opt_in_file a of
           None \<Rightarrow> arr_nLongitudes arr = opt_lon a
         | Some f \<Rightarrow> 2 \<le> arr_nLongitudes arr"
    using arr
    by (auto simp add: length_arrays_from_parameters dest: arrays_from_file_Inr(1)
        split: option.splits)
  from build lat lon show ?thesis by (rule that)
qed

lemma polar_loop_4:
  "polar_loop p [n0, n1, n2, n3] \<longleftrightarrow> n0 = p \<and> n3 = p \<and> p \<noteq> n1 \<and> n1 \<noteq> n2 \<and> n2 \<noteq> p"
  by (simp add: polar_loop_def)

lemma south_polar_face_loop:
  assumes "0 \<le> i" "i < nLN" "2 \<le> nLN"
  shows "polar_loop 0 (face_nodes (south_polar_face gc nLN i))"
  using next_index [OF assms] assms
  by (simp add: south_polar_face_def quad_nodes polar_loop_4)

lemma interior_face_loop:
  assumes "0 \<le> i" "i < nLN" "2 \<le> nLN"
  shows "consecutive_distinct (face_nodes (interior_face gc nLN this (this + nLN) i))"
  using next_index [OF assms] assms
  by (simp add: interior_face_def quad_nodes consecutive_distinct_4)

lemma north_polar_face_loop:
  assumes "0 \<le> i" "i < nLN" "2 \<le> nLN"
  shows "polar_loop (this + nLN) (face_nodes (north_polar_face gc nLN this (this + nLN) i))"
  using next_index [OF assms] assms
  by (simp add: north_polar_face_def quad_nodes polar_loop_4)

lemma south_polar_faces_loops:
  assumes "2 \<le> nLN" "nLon \<le> nLN"
  shows "list_all (\<lambda>f. polar_loop 0 (face_nodes f)) (south_polar_faces gc nLon nLN fS)"
  using assms
  by (auto simp add: south_polar_faces_def list_all_iff intro!: south_polar_face_loop)

lemma interior_faces_loops:
  assumes "2 \<le> nLN" "nLon \<le> nLN"
  shows "list_all (\<lambda>f. consecutive_distinct (face_nodes f)) (interior_faces gc nLon nLN off iB iE)"
proof -
  have "consecutive_distinct
      (face_nodes (interior_face gc nLN (jx * nLN + off) ((jx + 1) * nLN + off) i))"
    if "0 \<le> i" "i < nLon" for jx i
  proof -
    have "(jx + 1) * nLN + off = (jx * nLN + off) + nLN"
      by (simp add: algebra_simps)
    moreover have "consecutive_distinct
        (face_nodes (interior_face gc nLN (jx * nLN + off) ((jx * nLN + off) + nLN) i))"
      using that assms by (intro interior_face_loop) simp_all
    ultimately show ?thesis
      by (simp only:)
  qed
  then show ?thesis
    by (auto simp add: interior_faces_def list_all_iff Let_def)
qed

lemma north_polar_faces_loops:
  assumes "2 \<le> nLN" "nLon \<le> nLN"
    and "fN \<Longrightarrow> int nodes_size - 1 = (nLat - iB) * nLN + off"
  shows "list_all (\<lambda>f. polar_loop (int nodes_size - 1) (face_nodes f))
     (north_polar_faces gc nLon nLat nLN off iB fN nodes_size)"
proof (cases fN)
  case False
  then show ?thesis by (simp add: north_polar_faces_def)
next
  case True
  have eq: "int nodes_size - 1 = ((nLat - iB - 1) * nLN + off) + nLN"
    using assms(3) [OF True] by (simp add: algebra_simps)
  have "polar_loop (int nodes_size - 1)
      (face_nodes (north_polar_face gc nLN ((nLat - iB - 1) * nLN + off) (int nodes_size - 1) i))"
    if "0 \<le> i" "i < nLon" for i
    unfolding eq using that assms by (intro north_polar_face_loop) simp_all
  then show ?thesis
    using True by (auto simp add: north_polar_faces_def list_all_iff Let_def)
qed

lemma generate_nodes_poles:
  assumes "generate_nodes dLonEdge dLatEdge nLN iB iE fS fN = Inr ns"
  shows "fS \<Longrightarrow> ns \<noteq> [] \<and> hd ns = Node 0 0 (- 1)"
    and "fN \<Longrightarrow> ns \<noteq> [] \<and> last ns = Node 0 0 1"
proof -
  have eq: "map Inr ns =
       (if fS then [Inr (Node 0 0 (- 1))] else [])
        @ concat (map (\<lambda>j. map (interior_node dLonEdge dLatEdge j) [0..nLN - 1]) [iB..iE])
        @ (if fN then [Inr (Node 0 0 1)] else [])"
    using assms by (simp add: generate_nodes_def collect_Inr_iff)
  show "ns \<noteq> [] \<and> hd ns = Node 0 0 (- 1)" if fS
  proof -
    from eq that obtain rest where "map Inr ns = (Inr (Node 0 0 (- 1)) :: failure + Node) # rest"
      by simp
    then show ?thesis by (cases ns) auto
  qed
  show "ns \<noteq> [] \<and> last ns = Node 0 0 1" if fN
  proof -
    from eq that obtain front where
      front: "map Inr ns = front @ [Inr (Node 0 0 1) :: failure + Node]"
      by simp
    then have ne: "ns \<noteq> []"
      by auto
    then have "last (map Inr ns :: (failure + Node) list) = Inr (last ns)"
      by (simp add: last_map)
    with front have "Inr (last ns) = (Inr (Node 0 0 1) :: failure + Node)"
      by simp
    with ne show ?thesis by simp
  qed
qed

lemma bands_quads:
  "\<forall>f \<in> set (bands gc arr fW fS fN k). \<exists>n0 n1 n2 n3. f = quad gc n0 n1 n2 n3"
  unfolding bands_def south_band_def interior_band_def north_band_def
    south_polar_faces_def interior_faces_def north_polar_faces_def
    south_polar_face_def interior_face_def north_polar_face_def Let_def
  by (auto split: if_splits)

lemma build_mesh_banded:
  assumes m: "build_mesh gc flip arr fW fS fN = Inr m"
    and lon: "2 \<le> arr_nLongitudes arr" and lat: "1 \<le> arr_nLatitudes arr"
  shows "banded gc flip arr fW fS fN m"
proof -
  define nLon where "nLon = arr_nLongitudes arr"
  define nLat where "nLat = arr_nLatitudes arr"
  define nLN where "nLN = longitude_nodes arr fW"
  define iB where "iB = (if fS then 1 else 0 :: int)"
  define iE where "iE = (if fN then nLat - 1 else nLat)"
  define fs where "fs = bands gc arr fW fS fN (length (nodes m))"
  have ns: "generate_nodes (arr_dLonEdge arr) (arr_dLatEdge arr) nLN iB iE fS fN = Inr (nodes m)"
    unfolding nLN_def longitude_nodes_def iB_def iE_def nLat_def
    by (rule build_mesh_Inr(1) [OF m])
  have fs': "(if flip then flip_faces nLon nLat fs else Inr fs) = Inr (faces m)"
    unfolding fs_def bands_def south_band_def interior_band_def north_band_def
      longitude_nodes_def nLon_def nLat_def
    by (rule build_mesh_Inr(2) [OF m])
  have n2: "2 \<le> nLN" and le: "nLon \<le> nLN"
    using lon by (simp_all add: nLN_def longitude_nodes_def nLon_def)
  have pole: "int (length (nodes m)) - 1 = (nLat - iB) * nLN + iB" if fN
  proof -
    have "0 \<le> nLat - iB" "0 \<le> nLN"
      using lat n2 by (simp_all add: iB_def nLat_def)
    then have "int (nat (nLat - iB) * nat nLN) = (nLat - iB) * nLN"
      by simp
    moreover have "length (nodes m) = (if fS then 1 else 0) + nat (nLat - iB) * nat nLN + 1"
      using generate_nodes_length [OF ns] that by (simp add: iE_def)
    ultimately show ?thesis
      by (simp add: iB_def)
  qed
  have 1: "set (faces m) \<subseteq> set fs"
    using fs' by (cases flip) (auto dest: flip_faces_subset)
  have 2: "list_all (\<lambda>f. length (face_nodes f) = 4) fs"
    unfolding fs_def list_all_iff using bands_quads [of gc arr fW fS fN] quad_nodes
    by fastforce
  have 3: "list_all (\<lambda>f. polar_loop 0 (face_nodes f)) (south_band gc arr fW fS)"
    unfolding south_band_def nLN_def [symmetric] nLon_def [symmetric]
    using n2 le by (rule south_polar_faces_loops)
  have 4: "list_all (\<lambda>f. consecutive_distinct (face_nodes f)) (interior_band gc arr fW fS fN)"
    unfolding interior_band_def nLN_def [symmetric] nLon_def [symmetric]
    using n2 le by (rule interior_faces_loops)
  have 5: "list_all (\<lambda>f. polar_loop (int (length (nodes m)) - 1) (face_nodes f))
            (north_band gc arr fW fS fN (length (nodes m)))"
    unfolding north_band_def nLN_def [symmetric] nLon_def [symmetric] nLat_def [symmetric]
      iB_def [symmetric]
    using n2 le pole by (rule north_polar_faces_loops)
  have 6: "if fS then nodes m \<noteq> [] \<and> hd (nodes m) = Node 0 0 (- 1)
           else south_band gc arr fW fS = []"
    using generate_nodes_poles(1) [OF ns]
    by (simp add: south_band_def south_polar_faces_def)
  have 7: "if fN then nodes m \<noteq> [] \<and> last (nodes m) = Node 0 0 1
          else north_band gc arr fW fS fN (length (nodes m)) = []"
    using generate_nodes_poles(2) [OF ns]
    by (simp add: north_band_def north_polar_faces_def)
  have mem: "list_all (\<lambda>f. f \<in> set fs) (faces m)"
    using 1 by (auto simp add: list_all_iff)
  show ?thesis
    unfolding banded_def fs_def [symmetric] nLon_def [symmetric] nLat_def [symmetric]
    using fs' mem 2 3 4 5 6 7 by (simp only: simp_thms)
qed


lemma banded_lon2_lat3:
  "banded gc False (arrays_from_parameters lon2_lat3) False True True (mesh_lon2_lat3 gc)"
proof -
  have "build_mesh gc False (arrays_from_parameters lon2_lat3) False True True
      = Inr (mesh_lon2_lat3 gc)"
    unfolding arrays_lon2_lat3 by (rule build_lon2_lat3)
  moreover have "2 \<le> arr_nLongitudes (arrays_from_parameters lon2_lat3)"
    "1 \<le> arr_nLatitudes (arrays_from_parameters lon2_lat3)"
    by (simp_all add: arrays_lon2_lat3)
  ultimately show ?thesis
    by (rule build_mesh_banded)
qed



text \<open>
  C3, as the code has it. The macro \<open>ONLY_GREAT_CIRCLES\<close> is defined, and with
  it every edge of every face of the generator keeps the type of a
  great-circle arc; the edges 1 and 3 of a face would be of constant latitude
  only in a build without the macro.
\<close>

theorem edge_types:
  assumes "rll_try_block gc a w = Inr m"
  shows "ONLY_GREAT_CIRCLES
    \<and> list_all
      (\<lambda>f. map etype (edges f) =
         (if gc
          then [Type_GreatCircleArc, Type_GreatCircleArc,
                Type_GreatCircleArc, Type_GreatCircleArc]
          else [Type_GreatCircleArc, Type_ConstantLatitude,
                Type_GreatCircleArc, Type_ConstantLatitude]))
      (faces m)"
proof -
  from assms obtain arr fW fS fN where
    "build_mesh gc (opt_flip a) arr fW fS fN = Inr m"
    by (rule rll_try_block_build)
  then have "\<forall>f \<in> set (faces m). \<exists>n0 n1 n2 n3. f = quad gc n0 n1 n2 n3"
    by (rule build_mesh_faces_quad)
  then have "\<forall>f \<in> set (faces m). map etype (edges f) =
         (if gc
          then [Type_GreatCircleArc, Type_GreatCircleArc,
                Type_GreatCircleArc, Type_GreatCircleArc]
          else [Type_GreatCircleArc, Type_ConstantLatitude,
                Type_GreatCircleArc, Type_ConstantLatitude])"
    using quad_types by fastforce
  then show ?thesis
    by (simp add: ONLY_GREAT_CIRCLES_def list_all_iff)
qed

theorem edge_types_witness:
  "rll_try_block ONLY_GREAT_CIRCLES lon2_lat3 write_ok = Inr (mesh_lon2_lat3 ONLY_GREAT_CIRCLES)
   \<and> ONLY_GREAT_CIRCLES
   \<and> list_all all_great_circles (faces (mesh_lon2_lat3 ONLY_GREAT_CIRCLES))"
proof -
  have 1: "rll_try_block ONLY_GREAT_CIRCLES lon2_lat3 write_ok
      = Inr (mesh_lon2_lat3 ONLY_GREAT_CIRCLES)"
    by (rule run_lon2_lat3)
  have 2: "all_great_circles f"
    if "map etype (edges f) = [Type_GreatCircleArc, Type_GreatCircleArc,
                Type_GreatCircleArc, Type_GreatCircleArc]" for f
  proof -
    have "list_all (\<lambda>t. t = Type_GreatCircleArc) (map etype (edges f))"
      unfolding that by simp
    then show ?thesis
      by (simp add: all_great_circles_def list_all_iff)
  qed
  from edge_types [OF 1] have "ONLY_GREAT_CIRCLES"
    and "list_all all_great_circles (faces (mesh_lon2_lat3 ONLY_GREAT_CIRCLES))"
    by (auto simp add: list_all_iff intro: 2)
  with 1 show ?thesis
    by blast
qed

text \<open>
  C3, as the claim states it, fails on the mesh of \<open>--lon 2 --lat 3\<close>: the two
  latitude-parallel edges of each of its six faces are great-circle arcs,
  not edges of constant latitude.
\<close>

theorem latitude_edges_are_great_circles:
  "map_sum id (map latitude_parallel_types \<circ> faces)
       (rll_try_block ONLY_GREAT_CIRCLES lon2_lat3 write_ok)
     = Inr [[Type_GreatCircleArc, Type_GreatCircleArc],
            [Type_GreatCircleArc, Type_GreatCircleArc],
            [Type_GreatCircleArc, Type_GreatCircleArc],
            [Type_GreatCircleArc, Type_GreatCircleArc],
            [Type_GreatCircleArc, Type_GreatCircleArc],
            [Type_GreatCircleArc, Type_GreatCircleArc]]
   \<and> Type_GreatCircleArc \<noteq> Type_ConstantLatitude"
  by (simp add: run_lon2_lat3 mesh_lon2_lat3_def quad_edges latitude_parallel_types_def
      ONLY_GREAT_CIRCLES_def)



lemma set_bounds_reads:
  assumes "2 \<le> length dLatEdge" "2 \<le> length dLonEdge"
  shows "set_bounds dLonEdge dLatEdge =
     (if length dLonEdge \<le> length dLatEdge
      then Inr (dLatEdge ! 0, dLatEdge ! (length dLatEdge - 1), dLonEdge ! 0,
                dLatEdge ! (length dLonEdge - 1))
      else Inl (Undefined (Out_of_bounds_read ''dLatEdge'' (int (length dLonEdge) - 1)
                  (length dLatEdge))))"
  using assms
  by (auto simp add: set_bounds_def read_at_def and_then_def nat_diff_distrib')

lemma generate_mesh_out_of_bounds:
  assumes "2 \<le> length (arr_dLatEdge arr)"
    and "length (arr_dLatEdge arr) < length (arr_dLonEdge arr)"
  shows "generate_mesh gc flip arr =
     Inl (Undefined (Out_of_bounds_read ''dLatEdge'' (int (length (arr_dLonEdge arr)) - 1)
            (length (arr_dLatEdge arr))))"
  using assms
  by (simp add: generate_mesh_def set_bounds_reads and_then_simps)

lemma more_longitudes_than_latitudes:
  assumes "opt_in_file a = None" "opt_lat_begin a < opt_lat_end a"
    "opt_lon_begin a < opt_lon_end a" "1 \<le> opt_lat a" "opt_lat a < opt_lon a"
  shows "rll_main a w =
     Undefined_behaviour (Out_of_bounds_read ''dLatEdge'' (opt_lon a) (nat (opt_lat a + 1)))"
proof -
  have "generate_mesh gc (opt_flip a) (arrays_from_parameters a) =
     Inl (Undefined (Out_of_bounds_read ''dLatEdge'' (opt_lon a) (nat (opt_lat a + 1))))" for gc
    using assms
    by (subst generate_mesh_out_of_bounds) (simp_all add: length_arrays_from_parameters)
  then show ?thesis
    using assms by (simp add: rll_main_def rll_try_block_def and_then_simps)
qed

text \<open>
  C8 fails on the code. With the default arguments, 128 longitudes and 64
  latitudes, the last read of the bounds-setting step is a read of the
  latitude-edge array, which has 65 rows, at the index 128: the step indexes
  \<open>dLatEdge\<close> with the number of rows of \<open>dLonEdge\<close>.
\<close>

theorem bounds_read_out_of_range:
  "rll_main rll_defaults w = Undefined_behaviour (Out_of_bounds_read ''dLatEdge'' 128 65)"
  using more_longitudes_than_latitudes [of rll_defaults w]
  by (simp add: rll_defaults_def)

subsection \<open>When the generator returns a mesh\<close>

text \<open>
  The properties above are about the meshes that the \<open>try\<close> block returns.
  It does return one for every mesh from parameters with a positive box, at
  least one longitude and no more longitudes than latitudes, when the writer
  throws nothing: the reads of the nodes and of the reordering stay in range.
\<close>

lemma collect_succeeds:
  assumes "\<And>r. r \<in> set rs \<Longrightarrow> \<exists>v. r = Inr v"
  shows "\<exists>vs. collect rs = Inr vs"
  using assms
proof (induction rs)
  case Nil
  then show ?case by simp
next
  case (Cons r rs)
  then obtain v vs where "r = Inr v" "collect rs = Inr vs"
    by (metis list.set_intros(1) list.set_intros(2))
  then show ?case by simp
qed

lemma read_at_succeeds:
  "0 \<le> i \<Longrightarrow> i < int (length a) \<Longrightarrow> \<exists>v. read_at name a i = Inr v"
  by (simp add: read_at_def)

lemma generate_nodes_succeeds:
  assumes "nLN \<le> int (length dLonEdge)" "0 \<le> iB" "iE < int (length dLatEdge)"
  shows "\<exists>ns. generate_nodes dLonEdge dLatEdge nLN iB iE fS fN = Inr ns"
proof -
  have "\<exists>v. interior_node dLonEdge dLatEdge j i = Inr v"
    if ij: "iB \<le> j" "j \<le> iE" "0 \<le> i" "i \<le> nLN - 1" for i j
  proof -
    have "0 \<le> i" "i < int (length dLonEdge)" "0 \<le> j" "j < int (length dLatEdge)"
      using ij assms by simp_all
    then show ?thesis
      by (simp add: interior_node_def read_at_def and_then_simps)
  qed
  then show ?thesis
    unfolding generate_nodes_def by (intro collect_succeeds) auto
qed

lemma faces_length:
  "length (south_polar_faces gc nLon nLN fS) = (if fS then nat nLon else 0)"
  "length (interior_faces gc nLon nLN off iB iE) = nat (iE - iB) * nat nLon"
  "length (north_polar_faces gc nLon nLat nLN off iB fN k) = (if fN then nat nLon else 0)"
  by (simp_all add: south_polar_faces_def interior_faces_def north_polar_faces_def Let_def
      length_concat comp_def sum_list_triv)

lemma flip_faces_succeeds:
  assumes "nLat * nLon \<le> int (length fs)" "0 \<le> nLon"
  shows "\<exists>fs'. flip_faces nLon nLat fs = Inr fs'"
proof -
  have "\<exists>v. read_at ''faceTemp'' fs (j * nLon + i) = Inr v"
    if "0 \<le> i" "i \<le> nLon - 1" "0 \<le> j" "j \<le> nLat - 1" for i j
  proof (rule read_at_succeeds)
    show "0 \<le> j * nLon + i"
      using that assms by simp
    have "j * nLon \<le> (nLat - 1) * nLon"
      using that assms by (intro mult_right_mono) simp_all
    then have "j * nLon + i < nLat * nLon"
      using that by (simp add: algebra_simps)
    then show "j * nLon + i < int (length fs)"
      using assms by simp
  qed
  then show ?thesis
    unfolding flip_faces_def by (intro collect_succeeds) auto
qed

lemma build_mesh_succeeds:
  assumes "1 \<le> arr_nLongitudes arr" "1 \<le> arr_nLatitudes arr"
    and "length (arr_dLonEdge arr) = nat (arr_nLongitudes arr + 1)"
    and "length (arr_dLatEdge arr) = nat (arr_nLatitudes arr + 1)"
  shows "\<exists>m. build_mesh gc flip arr fW fS fN = Inr m"
proof -
  define nLon where "nLon = arr_nLongitudes arr"
  define nLat where "nLat = arr_nLatitudes arr"
  define nLN where "nLN = (if \<not> fW then nLon + 1 else nLon)"
  define iB where "iB = (if fS then 1 else 0 :: int)"
  define iE where "iE = (if fN then nLat - 1 else nLat)"
  have "nLN \<le> int (length (arr_dLonEdge arr))" "0 \<le> iB" "iE < int (length (arr_dLatEdge arr))"
    using assms by (simp_all add: nLN_def iB_def iE_def nLon_def nLat_def)
  then have "\<exists>ns. generate_nodes (arr_dLonEdge arr) (arr_dLatEdge arr) nLN iB iE fS fN = Inr ns"
    by (rule generate_nodes_succeeds)
  then obtain ns where ns:
    "generate_nodes (arr_dLonEdge arr) (arr_dLatEdge arr) nLN iB iE fS fN = Inr ns"
    by blast
  define fs where "fs =
       south_polar_faces gc nLon nLN fS
       @ interior_faces gc nLon nLN iB iB iE
       @ north_polar_faces gc nLon nLat nLN iB iB fN (length ns)"
  have "\<exists>fs'. (if flip then flip_faces nLon nLat fs else Inr fs) = Inr fs'"
  proof (cases flip)
    case True
    have rows: "nat nLat \<le> (if fS then 1 else 0) + nat (iE - iB) + (if fN then 1 else 0)"
      using assms(2) by (cases fS; cases fN) (simp_all add: iE_def iB_def nLat_def)
    have "length fs = ((if fS then 1 else 0) + nat (iE - iB) + (if fN then 1 else 0)) * nat nLon"
      by (cases fS; cases fN) (simp_all add: fs_def faces_length add_mult_distrib)
    moreover have "nat nLat * nat nLon
        \<le> ((if fS then 1 else 0) + nat (iE - iB) + (if fN then 1 else 0)) * nat nLon"
      using rows by (rule mult_le_mono1)
    ultimately have "nat nLat * nat nLon \<le> length fs"
      by (simp only:)
    then have "int (nat nLat * nat nLon) \<le> int (length fs)"
      by (simp only: of_nat_le_iff)
    moreover have "int (nat nLat * nat nLon) = nLat * nLon"
      using assms(1,2) by (simp add: nLon_def nLat_def)
    ultimately have "nLat * nLon \<le> int (length fs)"
      by (simp only:)
    moreover have "0 \<le> nLon"
      using assms(1) by (simp add: nLon_def)
    ultimately have "\<exists>fs'. flip_faces nLon nLat fs = Inr fs'"
      by (rule flip_faces_succeeds)
    then show ?thesis
      using True by simp
  next
    case False
    then show ?thesis by simp
  qed
  then obtain fs' where fs': "(if flip then flip_faces nLon nLat fs else Inr fs) = Inr fs'"
    by blast
  have "build_mesh gc flip arr fW fS fN =
     and_then (generate_nodes (arr_dLonEdge arr) (arr_dLatEdge arr) nLN iB iE fS fN) (\<lambda>ns.
       and_then
         (if flip then flip_faces nLon nLat
            (south_polar_faces gc nLon nLN fS
             @ interior_faces gc nLon nLN iB iB iE
             @ north_polar_faces gc nLon nLat nLN iB iB fN (length ns))
          else Inr
            (south_polar_faces gc nLon nLN fS
             @ interior_faces gc nLon nLN iB iB iE
             @ north_polar_faces gc nLon nLat nLN iB iB fN (length ns)))
         (\<lambda>fs'. Inr \<lparr>nodes = ns, faces = fs'\<rparr>))"
    unfolding build_mesh_def Let_def nLN_def iB_def iE_def nLon_def nLat_def ..
  also have "\<dots> = and_then (if flip then flip_faces nLon nLat fs else Inr fs)
         (\<lambda>fs'. Inr \<lparr>nodes = ns, faces = fs'\<rparr>)"
    unfolding ns and_then_simps fs_def ..
  also have "\<dots> = Inr \<lparr>nodes = ns, faces = fs'\<rparr>"
    unfolding fs' and_then_simps ..
  finally show ?thesis by blast
qed

lemma rll_try_block_succeeds:
  assumes "opt_in_file a = None" "opt_lat_begin a < opt_lat_end a"
    "opt_lon_begin a < opt_lon_end a" "1 \<le> opt_lon a" "opt_lon a \<le> opt_lat a"
    and "\<And>mesh. w mesh = None"
  shows "\<exists>m. rll_try_block gc a w = Inr m"
proof -
  define arr where "arr = arrays_from_parameters a"
  have len: "length (arr_dLonEdge arr) = nat (opt_lon a + 1)"
    "length (arr_dLatEdge arr) = nat (opt_lat a + 1)"
    and n: "arr_nLongitudes arr = opt_lon a" "arr_nLatitudes arr = opt_lat a"
    by (simp_all add: arr_def length_arrays_from_parameters)
  have "\<exists>m. build_mesh gc (opt_flip a) arr fW fS fN = Inr m" for fW fS fN
    using assms len n by (intro build_mesh_succeeds) simp_all
  moreover have "\<exists>b. set_bounds (arr_dLonEdge arr) (arr_dLatEdge arr) = Inr b"
    using assms len by (subst set_bounds_reads) simp_all
  ultimately have "\<exists>m. generate_mesh gc (opt_flip a) arr = Inr m"
    using assms len
    by (auto simp add: generate_mesh_def and_then_simps split: prod.splits)
  then show ?thesis
    using assms by (auto simp add: rll_try_block_def and_then_simps arr_def)
qed

section \<open>Properties of the command-line programs\<close>








text \<open>
  The option \<open>--method\<close> is \<open>fuzzy\<close> when it is omitted, and \<open>main\<close> hands the
  string it holds to \<open>GenerateOverlapMesh_v1\<close> as it is: \<open>main\<close> neither
  compares it with the values \<open>fuzzy\<close>, \<open>exact\<close> and \<open>mixed\<close> of the option's
  description nor refuses any string.
\<close>

lemma method_is_forwarded:
  "strMethod (c\<lparr>opt_method := None\<rparr>) = ''fuzzy''"
  "strMethod (c\<lparr>opt_method := Some s\<rparr>) = s"
  "overlap_main c api =
     overlap_main c (\<lambda>strMeshA strMeshB strOverlapMesh method fNoValidate.
       api strMeshA strMeshB strOverlapMesh (strMethod c) fNoValidate)"
  by (simp_all add: strMethod_def or_default_def overlap_main_def)

end
